theory Spec2Isabelle
  imports Main "HOL-Library.Word" "HOL-Library.AList"
begin

section \<open>JavaScript values\<close>

text \<open>
  A JavaScript string is a sequence of UTF-16 code units. String literals of the source
  are ASCII and are written with \<open>js\<close>.
\<close>

type_synonym jsstring = "16 word list"

definition js :: "string \<Rightarrow> jsstring" where
  "js s = map of_char s"

text \<open>
  The values \<open>JSON.parse\<close> can return, and \<open>undefined\<close>. Numbers are IEEE doubles
  that this program never inspects. An array is an object too: besides its elements it
  can carry named properties, which is what an assignment \<open>arr.name = v\<close> creates.
\<close>

typedecl js_number

datatype jsval =
    JUndefined
  | JNull
  | JBool bool
  | JNum js_number
  | JStr jsstring
  | JArr "jsval list" "(jsstring \<times> jsval) list"
  | JObj "(jsstring \<times> jsval) list"

text \<open>
  Reading \<open>v.k\<close>, for a name \<open>k\<close> that is not an array index, not \<open>length\<close> and not
  defined on a built-in prototype (the source reads \<open>keywords\<close> only). \<open>None\<close> is the
  TypeError of reading a property of \<open>null\<close> or \<open>undefined\<close>.
\<close>

fun js_get :: "jsval \<Rightarrow> jsstring \<Rightarrow> jsval option" where
  "js_get JUndefined k = None"
| "js_get JNull k = None"
| "js_get (JObj ps) k = Some (case map_of ps k of None \<Rightarrow> JUndefined | Some v \<Rightarrow> v)"
| "js_get (JArr xs ps) k = Some (case map_of ps k of None \<Rightarrow> JUndefined | Some v \<Rightarrow> v)"
| "js_get v k = Some JUndefined"

text \<open>
  The assignment \<open>v.k = x\<close> in module code, which is strict: on \<open>null\<close>, \<open>undefined\<close>
  and on a primitive it throws a TypeError (\<open>None\<close>); on an object or an array it
  replaces the property or appends it.
\<close>

fun js_set :: "jsval \<Rightarrow> jsstring \<Rightarrow> jsval \<Rightarrow> jsval option" where
  "js_set (JObj ps) k x = Some (JObj (AList.update k x ps))"
| "js_set (JArr xs ps) k x = Some (JArr xs (AList.update k x ps))"
| "js_set v k x = None"

definition js_strings :: "jsstring list \<Rightarrow> jsval" where
  "js_strings qs = JArr (map JStr qs) []"

text \<open>\<open>a || b\<close> on values that are a string or \<open>undefined\<close>: the empty string is falsy.\<close>

definition truthy :: "jsstring option \<Rightarrow> bool" where
  "truthy a = (case a of None \<Rightarrow> False | Some s \<Rightarrow> s \<noteq> [])"

definition js_or :: "jsstring option \<Rightarrow> jsstring option \<Rightarrow> jsstring option" where
  "js_or a b = (if truthy a then a else b)"

section \<open>The query orchestrator (services/aiService)\<close>

text \<open>
  The configuration \<open>getAIClient\<close> reads: \<open>import.meta.env.VITE_GEMINI_API_KEY\<close>, and
  \<open>process.env.GEMINI_API_KEY\<close> when a \<open>process\<close> object exists (\<open>process_env = None\<close>
  when \<open>typeof process\<close> is \<open>'undefined'\<close>).
\<close>

record environment =
  VITE_GEMINI_API_KEY :: "jsstring option"
  process_env :: "jsstring option option"

datatype search_error =
    ApiKeyMissing
  | NoResponseFromAI
  | InvalidJSON
  | BackendFailure jsstring

datatype ai_client = GoogleGenAI (apiKey: jsstring)

definition getAIClient :: "environment \<Rightarrow> search_error + ai_client" where
  "getAIClient env =
     (let apiKey = js_or (VITE_GEMINI_API_KEY env)
                     (case process_env env of None \<Rightarrow> None | Some k \<Rightarrow> k)
      in case apiKey of
           None \<Rightarrow> Inl ApiKeyMissing
         | Some k \<Rightarrow> if k = [] then Inl ApiKeyMissing else Inr (GoogleGenAI k))"

datatype tool = GoogleSearch

record request =
  model :: jsstring
  contents :: jsstring
  responseMimeType :: jsstring
  tools :: "tool list option"

record grounding =
  webSearchQueries :: "jsstring list option"

record candidate =
  groundingMetadata :: "grounding option"

record gen_response =
  response_text :: "jsstring option"
  candidates :: "candidate list option"

text \<open>What the call does to the outside, in order.\<close>

datatype effect =
    GenerateContent ai_client request
  | JSON_parse jsstring

text \<open>The two prompt templates around the interpolated user query.\<close>

definition fast_prompt :: "jsstring \<Rightarrow> jsstring" where
  \<open>fast_prompt userQuery =
     js (''\<newline>'' @
         ''    You are an AI Search Strategy engine. Your goal is to show the user how you would break down their query to find information.\<newline>'' @
         ''    \<newline>'' @
         ''    User Query: "'') @
     userQuery @
     js (''"\<newline>'' @
         ''\<newline>'' @
         ''    Task:\<newline>'' @
         ''    1. Analyze the query and generate 4-6 precise, distinct search keywords or sub-queries to research this topic thoroughly.\<newline>'' @
         ''    2. Return the data in a strict JSON format.\<newline>'' @
         ''\<newline>'' @
         ''    Output Format (JSON only, no markdown):\<newline>'' @
         ''    {\<newline>'' @
         ''      "keywords": ["keyword 1", "keyword 2", ...],\<newline>'' @
         ''      "results": [],\<newline>'' @
         ''      "answer": "I would research this by looking into [X], [Y], and [Z] to provide a comprehensive answer."\<newline>'' @
         ''    }\<newline>'' @
         ''  '')\<close>

definition full_prompt :: "jsstring \<Rightarrow> jsstring" where
  \<open>full_prompt userQuery =
     js (''\<newline>'' @
         ''    You are an AI Search Transparency engine. Your goal is to show the user how you break down their query, find information, and provide a synthesized answer.\<newline>'' @
         ''    \<newline>'' @
         ''    User Query: "'') @
     userQuery @
     js (''"\<newline>'' @
         ''\<newline>'' @
         ''    Task:\<newline>'' @
         ''    1. Analyze the query and generate 4-6 precise, distinct search keywords or sub-queries to research this topic thoroughly.\<newline>'' @
         ''    2. Use the Google Search tool to find actual, relevant information for these keywords.\<newline>'' @
         ''    3. Based on the search results, provide a concise, factual answer to the user's query.\<newline>'' @
         ''    4. Return the data in a strict JSON format.\<newline>'' @
         ''\<newline>'' @
         ''    Output Format (JSON only, no markdown):\<newline>'' @
         ''    {\<newline>'' @
         ''      "keywords": ["keyword 1", "keyword 2", ...],\<newline>'' @
         ''      "results": [\<newline>'' @
         ''        { \<newline>'' @
         ''          "keyword": "keyword 1", \<newline>'' @
         ''          "title": "Page Title", \<newline>'' @
         ''          "url": "https://...", \<newline>'' @
         ''          "snippet": "Brief relevant excerpt..." \<newline>'' @
         ''        },\<newline>'' @
         ''        ...\<newline>'' @
         ''      ],\<newline>'' @
         ''      "answer": "A synthesized answer based on the results found..."\<newline>'' @
         ''    }\<newline>'' @
         ''\<newline>'' @
         ''    Ensure the "keyword" field in the results matches one of the generated keywords.\<newline>'' @
         ''    Try to find at least 1-2 results per keyword.\<newline>'' @
         ''  '')\<close>

definition build_request :: "jsstring \<Rightarrow> bool \<Rightarrow> request" where
  "build_request userQuery isFast =
     \<lparr> model = js ''gemini-3-flash-preview'',
       contents = (if isFast then fast_prompt userQuery else full_prompt userQuery),
       responseMimeType = js ''application/json'',
       tools = (if \<not> isFast then Some [GoogleSearch] else None) \<rparr>"

text \<open>\<open>response.candidates?.[0]?.groundingMetadata\<close> and \<open>?.webSearchQueries || []\<close>.\<close>

definition first_groundingMetadata :: "gen_response \<Rightarrow> grounding option" where
  "first_groundingMetadata response =
     (case candidates response of
        None \<Rightarrow> None
      | Some [] \<Rightarrow> None
      | Some (c # cs) \<Rightarrow> groundingMetadata c)"

definition extract_actualQueries :: "gen_response \<Rightarrow> jsstring list" where
  "extract_actualQueries response =
     (case first_groundingMetadata response of
        None \<Rightarrow> []
      | Some g \<Rightarrow> (case webSearchQueries g of None \<Rightarrow> [] | Some qs \<Rightarrow> qs))"

text \<open>
  The body of the inner \<open>try\<close> after \<open>JSON.parse\<close> has returned \<open>data\<close>: two property
  assignments, the first reading \<open>data.keywords\<close> in fast mode. \<open>None\<close> is a TypeError,
  which the inner \<open>catch\<close> turns into the invalid-JSON error.
\<close>

definition annotate :: "jsval \<Rightarrow> bool \<Rightarrow> jsstring list \<Rightarrow> jsval option" where
  "annotate data isFast actualQueries =
     (case (if isFast then js_get data (js ''keywords'')
            else Some (js_strings actualQueries)) of
        None \<Rightarrow> None
      | Some aq \<Rightarrow>
          (case js_set data (js ''actualQueries'') aq of
             None \<Rightarrow> None
           | Some data1 \<Rightarrow> js_set data1 (js ''isFastMode'') (JBool isFast)))"

text \<open>
  \<open>performTransparentSearch\<close>. The SDK call \<open>ai.models.generateContent\<close> and
  \<open>JSON.parse\<close> are parameters: the first resolves to a response or rejects with a
  message, the second returns a value or throws (\<open>None\<close>). The result is the settled
  promise (\<open>Inl\<close> a rejection) together with the effects performed.
\<close>

definition performTransparentSearch ::
  "environment \<Rightarrow> (request \<Rightarrow> jsstring + gen_response) \<Rightarrow> (jsstring \<Rightarrow> jsval option)
     \<Rightarrow> jsstring \<Rightarrow> bool \<Rightarrow> (search_error + jsval) \<times> effect list" where
  "performTransparentSearch env generateContent parse userQuery isFast =
     (case getAIClient env of
        Inl e \<Rightarrow> (Inl e, [])
      | Inr ai \<Rightarrow>
          (let req = build_request userQuery isFast in
           case generateContent req of
             Inl msg \<Rightarrow> (Inl (BackendFailure msg), [GenerateContent ai req])
           | Inr response \<Rightarrow>
               (case response_text response of
                  None \<Rightarrow> (Inl NoResponseFromAI, [GenerateContent ai req])
                | Some txt \<Rightarrow>
                    if txt = [] then (Inl NoResponseFromAI, [GenerateContent ai req])
                    else
                      (let actualQueries = extract_actualQueries response in
                       case parse txt of
                         None \<Rightarrow>
                           (Inl InvalidJSON, [GenerateContent ai req, JSON_parse txt])
                       | Some data \<Rightarrow>
                           (case annotate data isFast actualQueries of
                              None \<Rightarrow>
                                (Inl InvalidJSON, [GenerateContent ai req, JSON_parse txt])
                            | Some data2 \<Rightarrow>
                                (Inr data2, [GenerateContent ai req, JSON_parse txt]))))))"

section \<open>The presentation layer (App and SearchInput)\<close>

record SearchResult =
  keyword :: jsstring
  title :: jsstring
  url :: jsstring
  snippet :: jsstring

record TransparencyResponse =
  "keywords" :: "jsstring list"
  results :: "SearchResult list"
  actualQueries :: "jsstring list option"
  isFastMode :: "bool option"
  answer :: "jsstring option"

text \<open>
  \<open>String.prototype.trim\<close> strips from both ends the code units ECMAScript calls
  white space (TAB, VT, FF, the byte order mark and the space separators of Unicode) or
  line terminators (LF, CR, LS, PS).
\<close>

definition is_ws :: "16 word \<Rightarrow> bool" where
  "is_ws c =
     (c \<in> {0x9, 0xA, 0xB, 0xC, 0xD, 0x20, 0xA0, 0x1680, 0x2028, 0x2029, 0x202F, 0x205F,
            0x3000, 0xFEFF}
      \<or> (0x2000 \<le> c \<and> c \<le> 0x200A))"

definition trim :: "jsstring \<Rightarrow> jsstring" where
  "trim s = rev (dropWhile is_ws (rev (dropWhile is_ws s)))"

text \<open>
  \<open>SearchInput.handleSubmit\<close>, given the component's \<open>query\<close> state and its
  \<open>isLoading\<close> prop: \<open>Some q\<close> is the invocation \<open>onSearch(q)\<close>, \<open>None\<close> no invocation.
\<close>

definition handleSubmit :: "jsstring \<Rightarrow> bool \<Rightarrow> jsstring option" where
  "handleSubmit query isLoading =
     (if trim query \<noteq> [] \<and> \<not> isLoading then Some query else None)"

text \<open>
  A suspended run of the async function \<open>handleSearch\<close>: the \<open>await\<close> it is waiting at,
  and the \<open>query\<close> and \<open>isFastMode\<close> its closure holds.
\<close>

datatype stage = FirstDelay | SecondDelay | AwaitingSearch

record search_task =
  task_stage :: stage
  task_query :: jsstring
  task_isFastMode :: bool

text \<open>
  The state of the page: the six \<open>useState\<close> cells of \<open>App\<close>, the \<open>query\<close> cell of
  \<open>SearchInput\<close>, the suspended runs of \<open>handleSearch\<close> (oldest first), and the log of
  the invocations of \<open>performTransparentSearch\<close> with their arguments.
\<close>

record app =
  isLoading :: bool
  isFastMode :: bool
  data :: "TransparencyResponse option"
  activeKeyword :: "jsstring option"
  error :: "jsstring option"
  loadingStep :: jsstring
  query :: jsstring
  inflight :: "search_task list"
  calls :: "(jsstring \<times> bool) list"

definition initial :: app where
  "initial =
     \<lparr> isLoading = False, isFastMode = False, data = None, activeKeyword = None,
       error = None, loadingStep = [], query = [], inflight = [], calls = [] \<rparr>"

text \<open>\<open>handleSearch\<close> up to its first \<open>await\<close>.\<close>

definition handleSearch_begin :: "jsstring \<Rightarrow> app \<Rightarrow> app" where
  "handleSearch_begin q s =
     s\<lparr> isLoading := True, error := None, data := None, activeKeyword := None,
        loadingStep := js ''Analyzing query intent...'',
        inflight := inflight s @
          [\<lparr> task_stage = FirstDelay, task_query = q, task_isFastMode = isFastMode s \<rparr>] \<rparr>"

text \<open>
  \<open>handleSearch\<close> resumed by a timer: after the first delay it waits again; after the
  second it calls \<open>performTransparentSearch\<close> and waits for that promise.
\<close>

definition handleSearch_resume :: "search_task \<Rightarrow> search_task list \<Rightarrow> app \<Rightarrow> app" where
  "handleSearch_resume t ts s =
     (case task_stage t of
        FirstDelay \<Rightarrow>
          s\<lparr> loadingStep := js ''Generating search strategies...'',
             inflight := t\<lparr> task_stage := SecondDelay \<rparr> # ts \<rparr>
      | SecondDelay \<Rightarrow>
          s\<lparr> loadingStep :=
               (if \<not> task_isFastMode t then js ''Executing real-time web searches...''
                else loadingStep s),
             calls := calls s @ [(task_query t, task_isFastMode t)],
             inflight := t\<lparr> task_stage := AwaitingSearch \<rparr> # ts \<rparr>
      | AwaitingSearch \<Rightarrow> s)"

text \<open>
  \<open>handleSearch\<close> resumed by the settled promise: the rest of the \<open>try\<close> or the
  \<open>catch\<close>, then the \<open>finally\<close>. The resolved value is taken at its declared type
  \<open>TransparencyResponse\<close>, so \<open>response.keywords.length\<close> cannot throw here; a
  resolved value without a \<open>keywords\<close> list is outside this model.
\<close>

definition handleSearch_settle :: "search_error + TransparencyResponse \<Rightarrow> app \<Rightarrow> app" where
  "handleSearch_settle outcome s =
     (case outcome of
        Inr response \<Rightarrow>
          s\<lparr> data := Some response,
             activeKeyword :=
               (if length (keywords response) > 0 then Some (js ''all'') else activeKeyword s),
             isLoading := False, loadingStep := [] \<rparr>
      | Inl err \<Rightarrow>
          s\<lparr> error := Some (js ''Failed to perform search. Please try again.''),
             isLoading := False, loadingStep := [] \<rparr>)"

text \<open>
  What can happen to the page. A control acts only while it is rendered and enabled:
  the text input is disabled while loading, the chips and the clear button exist only
  when a response is held and nothing is loading.
\<close>

datatype event =
    ChangeQuery jsstring
  | SubmitForm
  | ToggleFastMode
  | ClickAllResults
  | ClickKeyword nat
  | ClickClear
  | TimerFired
  | SearchSettled "search_error + TransparencyResponse"

fun step :: "app \<Rightarrow> event \<Rightarrow> app" where
  "step s (ChangeQuery q) = (if isLoading s then s else s\<lparr> query := q \<rparr>)"
| "step s SubmitForm =
     (case handleSubmit (query s) (isLoading s) of
        None \<Rightarrow> s
      | Some q \<Rightarrow> handleSearch_begin q s)"
| "step s ToggleFastMode = s\<lparr> isFastMode := \<not> isFastMode s \<rparr>"
| "step s ClickAllResults =
     (if \<not> isLoading s \<and> data s \<noteq> None then s\<lparr> activeKeyword := Some (js ''all'') \<rparr>
      else s)"
| "step s (ClickKeyword idx) =
     (case data s of
        None \<Rightarrow> s
      | Some d \<Rightarrow>
          if \<not> isLoading s \<and> idx < length (keywords d)
          then s\<lparr> activeKeyword := Some (keywords d ! idx) \<rparr>
          else s)"
| "step s ClickClear =
     (if data s \<noteq> None \<and> \<not> isLoading s then s\<lparr> data := None, activeKeyword := None \<rparr>
      else s)"
| "step s TimerFired =
     (case inflight s of [] \<Rightarrow> s | t # ts \<Rightarrow> handleSearch_resume t ts s)"
| "step s (SearchSettled outcome) =
     (case inflight s of
        [] \<Rightarrow> s
      | t # ts \<Rightarrow>
          if task_stage t = AwaitingSearch
          then handleSearch_settle outcome (s\<lparr> inflight := ts \<rparr>)
          else s)"

definition run :: "app \<Rightarrow> event list \<Rightarrow> app" where
  "run s evs = foldl step s evs"

subsection \<open>Rendering\<close>

definition filteredResults ::
  "TransparencyResponse option \<Rightarrow> jsstring option \<Rightarrow> SearchResult list" where
  "filteredResults dat active =
     (case dat of
        None \<Rightarrow> []
      | Some d \<Rightarrow>
          if active = Some (js ''all'') \<or> \<not> truthy active then results d
          else filter (\<lambda>r. Some (keyword r) = active) (results d))"

text \<open>The props of one \<open>KeywordChip\<close>.\<close>

record chip =
  chip_keyword :: jsstring
  chip_isActive :: bool
  chip_resultCount :: nat

definition keyword_chips :: "TransparencyResponse \<Rightarrow> jsstring option \<Rightarrow> chip list" where
  "keyword_chips d active =
     \<lparr> chip_keyword = js ''All Results'', chip_isActive = (active = Some (js ''all'')),
       chip_resultCount = length (results d) \<rparr> #
     map (\<lambda>k. \<lparr> chip_keyword = k, chip_isActive = (active = Some k),
                chip_resultCount = length (filter (\<lambda>r. keyword r = k) (results d)) \<rparr>)
       (keywords d)"

text \<open>The right panel below the answer: the fast-mode notice, one card per filtered
  result, or the no-results placeholder.\<close>

datatype results_panel =
    FastModeNotice
  | ResultCards "SearchResult list"
  | NoResultsPlaceholder

definition render_results :: "TransparencyResponse \<Rightarrow> SearchResult list \<Rightarrow> results_panel" where
  "render_results d fr =
     (if TransparencyResponse.isFastMode d = Some True then FastModeNotice
      else if length fr > 0 then ResultCards fr
      else NoResultsPlaceholder)"

text \<open>
  What \<open>App\<close> returns: which of the clear button, loading indicator, error banner,
  results grid and empty state exist, and in the grid the props of the chips and the
  results panel. The answer block and the list of executed queries are left out, and so
  is the parsing of each result's \<open>url\<close> by \<open>new URL\<close> while the cards are drawn: the
  view is what is rendered when every \<open>url\<close> parses.
\<close>

record view =
  clear_button :: bool
  loading_indicator :: "jsstring option"
  error_banner :: "jsstring option"
  results_grid :: "(chip list \<times> results_panel) option"
  empty_state :: bool

definition render :: "app \<Rightarrow> view" where
  "render s =
     \<lparr> clear_button = (data s \<noteq> None \<and> \<not> isLoading s),
       loading_indicator = (if isLoading s then Some (loadingStep s) else None),
       error_banner = (if truthy (error s) then error s else None),
       results_grid =
         (case data s of
            None \<Rightarrow> None
          | Some d \<Rightarrow>
              if \<not> isLoading s
              then Some (keyword_chips d (activeKeyword s),
                         render_results d (filteredResults (data s) (activeKeyword s)))
              else None),
       empty_state = (\<not> isLoading s \<and> data s = None \<and> \<not> truthy (error s)) \<rparr>"

section \<open>Notions used in the statements, and example inputs\<close>

text \<open>A key is configured when one of the two configuration entries is a non-empty string.\<close>

definition api_key_configured :: "environment \<Rightarrow> bool" where
  "api_key_configured env =
     (truthy (VITE_GEMINI_API_KEY env)
      \<or> truthy (case process_env env of None \<Rightarrow> None | Some k \<Rightarrow> k))"

text \<open>Objects and arrays, as opposed to \<open>null\<close>, \<open>undefined\<close> and the primitives.\<close>

fun is_object :: "jsval \<Rightarrow> bool" where
  "is_object (JObj ps) = True"
| "is_object (JArr xs ps) = True"
| "is_object v = False"

text \<open>
  A backend that resolves to a fixed response, and a parser that knows one body and throws
  on every other text.
\<close>

definition stub_backend :: "gen_response \<Rightarrow> request \<Rightarrow> jsstring + gen_response" where
  "stub_backend response req = Inr response"

definition stub_parse :: "jsstring \<Rightarrow> jsval \<Rightarrow> jsstring \<Rightarrow> jsval option" where
  "stub_parse body v t = (if t = body then Some v else None)"

fun js_elements :: "jsval \<Rightarrow> jsval list" where
  "js_elements (JArr xs ps) = xs"
| "js_elements v = []"

text \<open>A response body with one keyword and one result, and what the two modes return for it.\<close>

definition example_result :: jsval where
  "example_result =
     JObj [(js ''keyword'', JStr (js ''a'')), (js ''title'', JStr (js ''t'')),
           (js ''url'', JStr (js ''https://example.com/a'')), (js ''snippet'', JStr (js ''s''))]"

definition example_body :: jsstring where
  \<open>example_body =
     js ''{"keywords":["a"],"results":[{"keyword":"a","title":"t","url":"https://example.com/a","snippet":"s"}]}''\<close>

definition example_data :: jsval where
  "example_data =
     JObj [(js ''keywords'', js_strings [js ''a'']), (js ''results'', JArr [example_result] [])]"

definition example_response :: gen_response where
  "example_response =
     \<lparr> response_text = Some example_body,
       candidates = Some [\<lparr> groundingMetadata = Some \<lparr> webSearchQueries = Some [js ''b''] \<rparr> \<rparr>] \<rparr>"

definition example_full_result :: jsval where
  "example_full_result =
     JObj [(js ''keywords'', js_strings [js ''a'']), (js ''results'', JArr [example_result] []),
           (js ''actualQueries'', js_strings [js ''b'']), (js ''isFastMode'', JBool False)]"

definition example_fast_result :: jsval where
  "example_fast_result =
     JObj [(js ''keywords'', js_strings [js ''a'']), (js ''results'', JArr [example_result] []),
           (js ''actualQueries'', js_strings [js ''a'']), (js ''isFastMode'', JBool True)]"

text \<open>
  Two responses with two candidates each: in the first the first candidate lists two
  executed queries, in the second the first candidate has no grounding metadata; and what
  a full-mode call returns for them.
\<close>

definition grounded_response :: gen_response where
  "grounded_response =
     \<lparr> response_text = Some example_body,
       candidates = Some
         [\<lparr> groundingMetadata = Some \<lparr> webSearchQueries = Some [js ''b'', js ''c''] \<rparr> \<rparr>,
          \<lparr> groundingMetadata = Some \<lparr> webSearchQueries = Some [js ''d''] \<rparr> \<rparr>] \<rparr>"

definition grounded_result :: jsval where
  "grounded_result =
     JObj [(js ''keywords'', JArr [JStr (js ''a'')] []), (js ''results'', JArr [example_result] []),
           (js ''actualQueries'', JArr [JStr (js ''b''), JStr (js ''c'')] []),
           (js ''isFastMode'', JBool False)]"

definition ungrounded_response :: gen_response where
  "ungrounded_response =
     \<lparr> response_text = Some example_body,
       candidates = Some
         [\<lparr> groundingMetadata = None \<rparr>,
          \<lparr> groundingMetadata = Some \<lparr> webSearchQueries = Some [js ''d''] \<rparr> \<rparr>] \<rparr>"

definition ungrounded_result :: jsval where
  "ungrounded_result =
     JObj [(js ''keywords'', JArr [JStr (js ''a'')] []), (js ''results'', JArr [example_result] []),
           (js ''actualQueries'', JArr [] []), (js ''isFastMode'', JBool False)]"

definition null_response :: gen_response where
  "null_response = \<lparr> response_text = Some (js ''null''), candidates = None \<rparr>"

definition env_with_key :: environment where
  "env_with_key = \<lparr> VITE_GEMINI_API_KEY = Some (js ''k''), process_env = None \<rparr>"

text \<open>
  For the runs of the page: the event that settles a search; how far a suspended run has
  got; the call a suspended run has still to make; the results tagged with a keyword.
\<close>

fun is_settled :: "event \<Rightarrow> bool" where
  "is_settled (SearchSettled outcome) = True"
| "is_settled e = False"

fun stage_rank :: "stage \<Rightarrow> nat" where
  "stage_rank FirstDelay = 0"
| "stage_rank SecondDelay = 1"
| "stage_rank AwaitingSearch = 2"

definition pending_call :: "search_task \<Rightarrow> (jsstring \<times> bool) list" where
  "pending_call t =
     (if task_stage t = AwaitingSearch then [] else [(task_query t, task_isFastMode t)])"


text \<open>
  The shape of every reachable state: at most one run of \<open>handleSearch\<close> is suspended,
  and one is suspended exactly while the busy flag is set. It is why \<open>step\<close> lets a timer
  or a settled promise resume the oldest run.
\<close>

definition well_formed :: "app \<Rightarrow> bool" where
  "well_formed s = (length (inflight s) \<le> 1 \<and> (isLoading s \<longleftrightarrow> inflight s \<noteq> []))"

text \<open>
  The example scenario: the query is typed and submitted, both delays pass, and the search
  resolves to a response with two keywords and one result; \<open>scenario_ready\<close> is the state
  the page is in then.
\<close>

definition scenario_query :: jsstring where
  "scenario_query = js ''best electric cars in 2025''"

definition scenario_result :: SearchResult where
  "scenario_result =
     \<lparr> keyword = js ''EV range 2025'', title = js ''...'', url = js ''https://example.com/a'',
       snippet = js ''...'' \<rparr>"

definition scenario_response :: TransparencyResponse where
  "scenario_response =
     \<lparr> keywords = [js ''EV range 2025'', js ''EV pricing 2025''],
       results = [scenario_result], actualQueries = Some [],
       TransparencyResponse.isFastMode = Some False, answer = Some (js ''...'') \<rparr>"

definition scenario_events :: "event list" where
  "scenario_events =
     [ChangeQuery scenario_query, SubmitForm, TimerFired, TimerFired,
      SearchSettled (Inr scenario_response)]"

definition scenario_ready :: app where
  "scenario_ready =
     \<lparr> isLoading = False, isFastMode = False, data = Some scenario_response,
       activeKeyword = Some (js ''all''), error = None, loadingStep = [],
       query = scenario_query, inflight = [], calls = [(scenario_query, False)] \<rparr>"


text \<open>The count shown on the first chip of the results grid, the \<open>All Results\<close> chip.\<close>

fun all_results_count :: "view \<Rightarrow> nat option" where
  "all_results_count v =
     (case results_grid v of
        Some (c # cs, p) \<Rightarrow> Some (chip_resultCount c)
      | Some ([], p) \<Rightarrow> None
      | None \<Rightarrow> None)"

section \<open>Properties of the orchestrator\<close>

lemma js_names [simp]:
  "js ''actualQueries'' \<noteq> js ''keywords''" "js ''isFastMode'' \<noteq> js ''keywords''"
  "js ''isFastMode'' \<noteq> js ''actualQueries''" "js ''actualQueries'' \<noteq> js ''results''"
  "js ''isFastMode'' \<noteq> js ''results''" "js ''actualQueries'' \<noteq> js ''isFastMode''"
  "js ''keywords'' \<noteq> js ''actualQueries''" "js ''keywords'' \<noteq> js ''isFastMode''"
  "js ''results'' \<noteq> js ''actualQueries''" "js ''results'' \<noteq> js ''isFastMode''"
  "js ''results'' \<noteq> js ''keywords''" "js ''keywords'' \<noteq> js ''results''"
  by (simp_all add: js_def)

lemma getAIClient_missing:
  "\<not> api_key_configured env \<Longrightarrow> getAIClient env = Inl ApiKeyMissing"
  by (auto simp: api_key_configured_def getAIClient_def js_or_def truthy_def split: option.splits)

lemma getAIClient_key:
  "getAIClient env = Inr ai \<Longrightarrow> api_key_configured env \<and> apiKey ai \<noteq> []"
  by (auto simp: api_key_configured_def getAIClient_def js_or_def truthy_def Let_def split: option.splits if_splits)

text \<open>
  Claim C4. When no API key is configured (both configuration entries are absent or
  empty), \<open>performTransparentSearch\<close> rejects with the configuration error and has
  performed no effect at all: whatever the backend and the parser would do, no request
  is issued.
\<close>

theorem missing_api_key_fails_before_network:
  "(\<not> api_key_configured env \<longrightarrow>
      performTransparentSearch env generateContent parse userQuery isFast =
        (Inl ApiKeyMissing, []))
   \<and> (\<forall>ai req.
        GenerateContent ai req \<in> set (snd (performTransparentSearch env generateContent parse
          userQuery isFast)) \<longrightarrow>
        api_key_configured env \<and> getAIClient env = Inr ai \<and> apiKey ai \<noteq> [])"
proof (cases "getAIClient env")
  case (Inl e)
  then show ?thesis
    by (auto simp: performTransparentSearch_def getAIClient_missing)
next
  case (Inr ai)
  from getAIClient_key [OF Inr] have "api_key_configured env" "apiKey ai \<noteq> []"
    by simp_all
  then show ?thesis
    using Inr unfolding performTransparentSearch_def
    by (auto simp: Let_def split: sum.splits option.splits if_splits)
qed

theorem missing_api_key_fails_before_network_witness:
  "\<not> api_key_configured \<lparr> VITE_GEMINI_API_KEY = Some [], process_env = Some None \<rparr> \<and>
   performTransparentSearch \<lparr> VITE_GEMINI_API_KEY = Some [], process_env = Some None \<rparr>
     (stub_backend example_response) (stub_parse example_body example_data)
     (js ''q'') False = (Inl ApiKeyMissing, [])"
  using missing_api_key_fails_before_network
    [of "\<lparr> VITE_GEMINI_API_KEY = Some [], process_env = Some None \<rparr>"
      "stub_backend example_response" "stub_parse example_body example_data" "js ''q''" False]
  by (simp add: api_key_configured_def truthy_def)

lemma js_get_set_same: "js_set d k x = Some d' \<Longrightarrow> js_get d' k = Some x"
  by (cases d) (auto simp: update_conv')

lemma js_get_set_other: "js_set d k x = Some d' \<Longrightarrow> k' \<noteq> k \<Longrightarrow> js_get d' k' = js_get d k'"
  by (cases d) (auto simp: update_conv')

lemma js_set_object: "js_set d k x = Some d' \<Longrightarrow> is_object d \<and> is_object d'"
  by (cases d) auto

lemma js_set_is_object: "is_object d \<Longrightarrow> \<exists>d'. js_set d k x = Some d'"
  by (cases d) auto

lemma annotate_Some:
  assumes "annotate d isFast qs = Some r"
  obtains aq d1 where
    "(if isFast then js_get d (js ''keywords'') else Some (js_strings qs)) = Some aq"
    "js_set d (js ''actualQueries'') aq = Some d1"
    "js_set d1 (js ''isFastMode'') (JBool isFast) = Some r"
  using assms unfolding annotate_def by (auto split: option.splits)

lemma annotate_props:
  assumes "annotate d isFast qs = Some r"
  shows "js_get r (js ''actualQueries'') =
           (if isFast then js_get d (js ''keywords'') else Some (js_strings qs))"
    and "js_get r (js ''isFastMode'') = Some (JBool isFast)"
    and "k \<noteq> js ''actualQueries'' \<Longrightarrow> k \<noteq> js ''isFastMode'' \<Longrightarrow> js_get r k = js_get d k"
proof -
  from assms obtain aq d1 where
    aq: "(if isFast then js_get d (js ''keywords'') else Some (js_strings qs)) = Some aq"
    and d1: "js_set d (js ''actualQueries'') aq = Some d1"
    and r: "js_set d1 (js ''isFastMode'') (JBool isFast) = Some r"
    by (rule annotate_Some)
  have "js_get r (js ''actualQueries'') = js_get d1 (js ''actualQueries'')"
    using js_get_set_other [OF r] by simp
  also have "\<dots> = Some aq"
    by (rule js_get_set_same [OF d1])
  finally show "js_get r (js ''actualQueries'') =
      (if isFast then js_get d (js ''keywords'') else Some (js_strings qs))"
    using aq by simp
  show "js_get r (js ''isFastMode'') = Some (JBool isFast)"
    by (rule js_get_set_same [OF r])
  show "js_get r k = js_get d k" if "k \<noteq> js ''actualQueries''" "k \<noteq> js ''isFastMode''"
    using js_get_set_other [OF r, of k] js_get_set_other [OF d1, of k] that by simp
qed

lemma js_set_elements: "js_set d k x = Some d' \<Longrightarrow> js_elements d' = js_elements d"
  by (cases d) auto

lemma annotate_elements:
  assumes "annotate d isFast qs = Some r"
  shows "js_elements r = js_elements d"
  using assms by (elim annotate_Some) (simp add: js_set_elements)

lemma annotate_object:
  "annotate d isFast qs = Some r \<Longrightarrow> is_object d"
  by (erule annotate_Some) (simp add: js_set_object)

lemma annotate_total:
  assumes "is_object d"
  shows "\<exists>r. annotate d isFast qs = Some r"
proof -
  have "\<exists>aq. (if isFast then js_get d (js ''keywords'') else Some (js_strings qs)) = Some aq"
    using assms by (cases d) auto
  then obtain aq where
    aq: "(if isFast then js_get d (js ''keywords'') else Some (js_strings qs)) = Some aq" ..
  obtain d1 where d1: "js_set d (js ''actualQueries'') aq = Some d1"
    using js_set_is_object [OF assms] by blast
  have "is_object d1" using js_set_object [OF d1] by simp
  then obtain r where "js_set d1 (js ''isFastMode'') (JBool isFast) = Some r"
    using js_set_is_object by blast
  with aq d1 show ?thesis by (simp add: annotate_def)
qed

lemma annotate_not_object:
  "\<not> is_object d \<Longrightarrow> annotate d isFast qs = None"
  using annotate_object by (cases "annotate d isFast qs") auto

text \<open>Every way the call can succeed.\<close>

lemma performTransparentSearch_Inr:
  assumes "performTransparentSearch env generateContent parse userQuery isFast = (Inr r, effs)"
  obtains ai response body d where
    "getAIClient env = Inr ai"
    "generateContent (build_request userQuery isFast) = Inr response"
    "response_text response = Some body" "body \<noteq> []"
    "parse body = Some d"
    "annotate d isFast (extract_actualQueries response) = Some r"
    "effs = [GenerateContent ai (build_request userQuery isFast), JSON_parse body]"
  using assms unfolding performTransparentSearch_def
  by (auto simp: Let_def split: sum.splits option.splits if_splits)

lemma performTransparentSearch_parsed:
  assumes "getAIClient env = Inr ai"
    "generateContent (build_request userQuery isFast) = Inr response"
    "response_text response = Some body" "body \<noteq> []"
  shows "performTransparentSearch env generateContent parse userQuery isFast =
    ((case parse body of None \<Rightarrow> Inl InvalidJSON
      | Some d \<Rightarrow> (case annotate d isFast (extract_actualQueries response) of
           None \<Rightarrow> Inl InvalidJSON | Some r \<Rightarrow> Inr r)),
     [GenerateContent ai (build_request userQuery isFast), JSON_parse body])"
  using assms unfolding performTransparentSearch_def
  by (auto simp: Let_def split: sum.splits option.splits if_splits)

lemma js_nonempty [simp]: "js ''null'' \<noteq> []" "js ''k'' \<noteq> []" "js ''{'' \<noteq> []"
  by (simp_all add: js_def)

lemma example_body_nonempty [simp]: "example_body \<noteq> []"
  by (simp add: example_body_def js_def)

lemma getAIClient_env_with_key: "getAIClient env_with_key = Inr (GoogleGenAI (js ''k''))"
  by (simp add: getAIClient_def env_with_key_def js_or_def truthy_def)

text \<open>
  Claim C5. With a key configured and a backend call that resolves: a missing or empty
  body gives the no-response error and the only effect is the request, so no parse was
  attempted, whatever the parser would have returned; a non-empty body that the parser
  rejects gives the invalid-JSON error after exactly one parse of the unmodified body.
\<close>

theorem no_response_and_malformed_response:
  assumes "getAIClient env = Inr ai"
    and "generateContent (build_request userQuery isFast) = Inr response"
  shows "(\<not> truthy (response_text response) \<longrightarrow>
           performTransparentSearch env generateContent parse userQuery isFast =
             (Inl NoResponseFromAI, [GenerateContent ai (build_request userQuery isFast)]))
       \<and> (\<forall>body. response_text response = Some body \<and> body \<noteq> [] \<and> parse body = None \<longrightarrow>
           performTransparentSearch env generateContent parse userQuery isFast =
             (Inl InvalidJSON,
              [GenerateContent ai (build_request userQuery isFast), JSON_parse body]))"
  using assms unfolding performTransparentSearch_def
  by (auto simp: Let_def truthy_def split: option.splits)

theorem no_response_and_malformed_response_witness:
  "performTransparentSearch env_with_key
      (stub_backend \<lparr> response_text = Some [], candidates = None \<rparr>)
      (stub_parse [] example_data) (js ''q'') True =
     (Inl NoResponseFromAI, [GenerateContent (GoogleGenAI (js ''k'')) (build_request (js ''q'') True)])
   \<and> performTransparentSearch env_with_key
      (stub_backend \<lparr> response_text = Some (js ''{''), candidates = None \<rparr>)
      (stub_parse example_body example_data) (js ''q'') True =
     (Inl InvalidJSON,
      [GenerateContent (GoogleGenAI (js ''k'')) (build_request (js ''q'') True), JSON_parse (js ''{'')])"
  using no_response_and_malformed_response [OF getAIClient_env_with_key, of "stub_backend \<lparr> response_text = Some [], candidates = None \<rparr>"
        "js ''q''" True "\<lparr> response_text = Some [], candidates = None \<rparr>" "stub_parse [] example_data"]
    no_response_and_malformed_response [OF getAIClient_env_with_key, of "stub_backend \<lparr> response_text = Some (js ''{''), candidates = None \<rparr>"
        "js ''q''" True "\<lparr> response_text = Some (js ''{''), candidates = None \<rparr>" "stub_parse example_body example_data"]
  by (simp add: stub_backend_def stub_parse_def truthy_def example_body_def js_def)

text \<open>
  Claim C8. After a successful full-mode call the \<open>actualQueries\<close> property of the
  result is the array of the strings in \<open>webSearchQueries\<close> of the first candidate's
  grounding metadata, all of them and in order, whatever the parsed body holds; it is the
  empty array when there are no candidates, when the first candidate has no grounding
  metadata, or when that metadata has no query list.
\<close>

theorem full_mode_actualQueries_from_grounding_metadata:
  assumes "performTransparentSearch env generateContent parse userQuery False = (Inr r, effs)"
  shows "\<exists>response. generateContent (build_request userQuery False) = Inr response
     \<and> js_get r (js ''actualQueries'') = Some (js_strings (extract_actualQueries response))
     \<and> (first_groundingMetadata response = None \<longrightarrow> js_get r (js ''actualQueries'') = Some (JArr [] []))
     \<and> (\<forall>g. first_groundingMetadata response = Some g \<and> webSearchQueries g = None \<longrightarrow>
           js_get r (js ''actualQueries'') = Some (JArr [] []))
     \<and> (\<forall>c cs g qs. candidates response = Some (c # cs) \<and> groundingMetadata c = Some g
             \<and> webSearchQueries g = Some qs \<longrightarrow>
           js_get r (js ''actualQueries'') = Some (JArr (map JStr qs) []))
     \<and> (\<forall>c cs g. candidates response = Some (c # cs) \<and> groundingMetadata c = Some g
             \<and> webSearchQueries g = None \<longrightarrow>
           js_get r (js ''actualQueries'') = Some (JArr [] []))
     \<and> (\<forall>c cs. candidates response = Some (c # cs) \<and> groundingMetadata c = None \<longrightarrow>
           js_get r (js ''actualQueries'') = Some (JArr [] []))
     \<and> (candidates response = None \<or> candidates response = Some [] \<longrightarrow>
           js_get r (js ''actualQueries'') = Some (JArr [] []))"
proof -
  from assms obtain response d where
    gc: "generateContent (build_request userQuery False) = Inr response"
    and an: "annotate d False (extract_actualQueries response) = Some r"
    by (rule performTransparentSearch_Inr)
  have "js_get r (js ''actualQueries'') = Some (js_strings (extract_actualQueries response))"
    using annotate_props(1) [OF an] by simp
  then show ?thesis
    using gc
    by (auto simp: extract_actualQueries_def first_groundingMetadata_def js_strings_def)
qed

lemma annotate_example_full:
  "annotate example_data False [js ''b''] = Some example_full_result"
  by (simp add: annotate_def example_data_def example_full_result_def)

lemma annotate_example_fast:
  "annotate example_data True [js ''b''] = Some example_fast_result"
  by (simp add: annotate_def example_data_def example_fast_result_def)

lemma extract_example: "extract_actualQueries example_response = [js ''b'']"
  by (simp add: extract_actualQueries_def first_groundingMetadata_def example_response_def)

lemma example_run:
  "performTransparentSearch env_with_key (stub_backend example_response)
     (stub_parse example_body example_data) (js ''q'') isFast =
   (if isFast then Inr example_fast_result else Inr example_full_result,
    [GenerateContent (GoogleGenAI (js ''k'')) (build_request (js ''q'') isFast),
     JSON_parse example_body])"
proof -
  have t: "response_text example_response = Some example_body"
    by (simp add: example_response_def)
  have g: "stub_backend example_response (build_request (js ''q'') isFast) = Inr example_response"
    by (simp add: stub_backend_def)
  from performTransparentSearch_parsed [where generateContent = "stub_backend example_response"
      and parse = "stub_parse example_body example_data",
      OF getAIClient_env_with_key g t example_body_nonempty]
  show ?thesis
    by (simp add: stub_backend_def stub_parse_def extract_example annotate_example_full
        annotate_example_fast)
qed

lemma grounded_run:
  "performTransparentSearch env_with_key (stub_backend grounded_response)
     (stub_parse example_body example_data) (js ''q'') False =
   (Inr grounded_result,
    [GenerateContent (GoogleGenAI (js ''k'')) (build_request (js ''q'') False),
     JSON_parse example_body])"
proof -
  have t: "response_text grounded_response = Some example_body"
    by (simp add: grounded_response_def)
  have g: "stub_backend grounded_response (build_request (js ''q'') False) = Inr grounded_response"
    by (simp add: stub_backend_def)
  have e: "extract_actualQueries grounded_response = [js ''b'', js ''c'']"
    by (simp add: extract_actualQueries_def first_groundingMetadata_def grounded_response_def)
  have a: "annotate example_data False [js ''b'', js ''c''] = Some grounded_result"
    by (simp add: annotate_def example_data_def grounded_result_def js_strings_def)
  from performTransparentSearch_parsed [where generateContent = "stub_backend grounded_response"
      and parse = "stub_parse example_body example_data",
      OF getAIClient_env_with_key g t example_body_nonempty]
  show ?thesis
    by (simp add: stub_parse_def e a)
qed

lemma ungrounded_run:
  "performTransparentSearch env_with_key (stub_backend ungrounded_response)
     (stub_parse example_body example_data) (js ''q'') False =
   (Inr ungrounded_result,
    [GenerateContent (GoogleGenAI (js ''k'')) (build_request (js ''q'') False),
     JSON_parse example_body])"
proof -
  have t: "response_text ungrounded_response = Some example_body"
    by (simp add: ungrounded_response_def)
  have g: "stub_backend ungrounded_response (build_request (js ''q'') False) = Inr ungrounded_response"
    by (simp add: stub_backend_def)
  have e: "extract_actualQueries ungrounded_response = []"
    by (simp add: extract_actualQueries_def first_groundingMetadata_def ungrounded_response_def)
  have a: "annotate example_data False [] = Some ungrounded_result"
    by (simp add: annotate_def example_data_def ungrounded_result_def js_strings_def)
  from performTransparentSearch_parsed [where generateContent = "stub_backend ungrounded_response"
      and parse = "stub_parse example_body example_data",
      OF getAIClient_env_with_key g t example_body_nonempty]
  show ?thesis
    by (simp add: stub_parse_def e a)
qed

theorem full_mode_actualQueries_from_grounding_metadata_witness:
  "performTransparentSearch env_with_key (stub_backend grounded_response)
     (stub_parse example_body example_data) (js ''q'') False =
   (Inr grounded_result,
    [GenerateContent (GoogleGenAI (js ''k'')) (build_request (js ''q'') False),
     JSON_parse example_body])
   \<and> js_get grounded_result (js ''actualQueries'') =
       Some (JArr [JStr (js ''b''), JStr (js ''c'')] [])
   \<and> js_get grounded_result (js ''keywords'') = Some (JArr [JStr (js ''a'')] [])
   \<and> performTransparentSearch env_with_key (stub_backend ungrounded_response)
     (stub_parse example_body example_data) (js ''q'') False =
   (Inr ungrounded_result,
    [GenerateContent (GoogleGenAI (js ''k'')) (build_request (js ''q'') False),
     JSON_parse example_body])
   \<and> js_get ungrounded_result (js ''actualQueries'') = Some (JArr [] [])"
proof -
  from full_mode_actualQueries_from_grounding_metadata [OF grounded_run] obtain response where
    r1: "stub_backend grounded_response (build_request (js ''q'') False) = Inr response"
    and q1: "\<forall>c cs g qs. candidates response = Some (c # cs) \<and> groundingMetadata c = Some g
             \<and> webSearchQueries g = Some qs \<longrightarrow>
           js_get grounded_result (js ''actualQueries'') = Some (JArr (map JStr qs) [])"
    by blast
  from r1 have "response = grounded_response" by (simp add: stub_backend_def)
  with q1 have
    "js_get grounded_result (js ''actualQueries'') =
       Some (JArr [JStr (js ''b''), JStr (js ''c'')] [])"
    by (simp add: grounded_response_def)
  moreover from full_mode_actualQueries_from_grounding_metadata [OF ungrounded_run] obtain response' where
    r2: "stub_backend ungrounded_response (build_request (js ''q'') False) = Inr response'"
    and q2: "\<forall>c cs. candidates response' = Some (c # cs) \<and> groundingMetadata c = None \<longrightarrow>
           js_get ungrounded_result (js ''actualQueries'') = Some (JArr [] [])"
    by blast
  from r2 have "response' = ungrounded_response" by (simp add: stub_backend_def)
  with q2 have "js_get ungrounded_result (js ''actualQueries'') = Some (JArr [] [])"
    by (simp add: ungrounded_response_def)
  moreover have "js_get grounded_result (js ''keywords'') = Some (JArr [JStr (js ''a'')] [])"
    by (simp add: grounded_result_def)
  ultimately show ?thesis using grounded_run ungrounded_run by simp
qed

text \<open>
  The claim as written also promises an empty \<open>results\<close> list. A fast-mode call whose
  body carries one result succeeds and returns that result.
\<close>

theorem fast_mode_results_not_emptied:
  "performTransparentSearch env_with_key (stub_backend example_response)
     (stub_parse example_body example_data) (js ''q'') True =
   (Inr example_fast_result,
    [GenerateContent (GoogleGenAI (js ''k'')) (build_request (js ''q'') True),
     JSON_parse example_body])
   \<and> js_get example_fast_result (js ''results'') = Some (JArr [example_result] [])"
  by (simp add: example_run) (simp add: example_fast_result_def)

text \<open>
  Claim C1, amended. After a successful fast-mode call the \<open>actualQueries\<close> property
  of the result equals its \<open>keywords\<close> property, \<open>isFastMode\<close> is \<open>true\<close>, and
  \<open>keywords\<close> and \<open>results\<close> are those of the parsed body: the call neither empties
  nor checks \<open>results\<close>.
\<close>

theorem fast_mode_actualQueries_equals_keywords:
  assumes "performTransparentSearch env generateContent parse userQuery True = (Inr r, effs)"
  shows "js_get r (js ''actualQueries'') = js_get r (js ''keywords'')
     \<and> js_get r (js ''isFastMode'') = Some (JBool True)
     \<and> (\<exists>response body d.
           generateContent (build_request userQuery True) = Inr response
         \<and> response_text response = Some body \<and> parse body = Some d
         \<and> js_get r (js ''keywords'') = js_get d (js ''keywords'')
         \<and> js_get r (js ''results'') = js_get d (js ''results''))"
proof -
  from assms obtain response body d where
    gc: "generateContent (build_request userQuery True) = Inr response"
    and body: "response_text response = Some body" "parse body = Some d"
    and an: "annotate d True (extract_actualQueries response) = Some r"
    by (rule performTransparentSearch_Inr)
  have kw: "js_get r (js ''keywords'') = js_get d (js ''keywords'')"
    and res: "js_get r (js ''results'') = js_get d (js ''results'')"
    using annotate_props(3) [OF an] by simp_all
  have "js_get r (js ''actualQueries'') = js_get r (js ''keywords'')"
    using annotate_props(1) [OF an] kw by simp
  moreover note annotate_props(2) [OF an]
  ultimately show ?thesis using gc body kw res by blast
qed

theorem fast_mode_actualQueries_equals_keywords_witness:
  "performTransparentSearch env_with_key (stub_backend example_response)
     (stub_parse example_body example_data) (js ''q'') True =
   (Inr example_fast_result,
    [GenerateContent (GoogleGenAI (js ''k'')) (build_request (js ''q'') True),
     JSON_parse example_body])
   \<and> js_get example_fast_result (js ''actualQueries'') = Some (js_strings [js ''a''])
   \<and> js_get example_fast_result (js ''keywords'') = Some (js_strings [js ''a''])"
proof -
  have run: "performTransparentSearch env_with_key (stub_backend example_response)
     (stub_parse example_body example_data) (js ''q'') True =
   (Inr example_fast_result,
    [GenerateContent (GoogleGenAI (js ''k'')) (build_request (js ''q'') True),
     JSON_parse example_body])"
    by (simp add: example_run)
  have kw: "js_get example_fast_result (js ''keywords'') = Some (js_strings [js ''a''])"
    by (simp add: example_fast_result_def)
  from fast_mode_actualQueries_equals_keywords [OF run] kw run show ?thesis by simp
qed

text \<open>
  The claim as written promises a result for every body that parses. The body \<open>null\<close>
  parses, and the call rejects.
\<close>

theorem parsed_null_is_rejected:
  "stub_parse (js ''null'') JNull (js ''null'') = Some JNull
   \<and> performTransparentSearch env_with_key (stub_backend null_response)
       (stub_parse (js ''null'') JNull) (js ''q'') False =
     (Inl InvalidJSON,
      [GenerateContent (GoogleGenAI (js ''k'')) (build_request (js ''q'') False),
       JSON_parse (js ''null'')])"
proof -
  have "response_text null_response = Some (js ''null'')"
    by (simp add: null_response_def)
  moreover have "stub_backend null_response (build_request (js ''q'') False) = Inr null_response"
    by (simp add: stub_backend_def)
  ultimately show ?thesis
    using performTransparentSearch_parsed [where generateContent = "stub_backend null_response"
      and parse = "stub_parse (js ''null'') JNull" and env = env_with_key
      and userQuery = "js ''q''" and isFast = False and response = null_response
      and body = "js ''null''", OF getAIClient_env_with_key]
    by (simp add: stub_backend_def stub_parse_def annotate_def)
qed

text \<open>
  Claim C10, amended. With a key configured, a resolved backend call and a non-empty
  body that parses to \<open>d\<close>: when \<open>d\<close> is an object or an array the call succeeds, whatever
  properties \<open>d\<close> has, and the result is \<open>d\<close> with \<open>actualQueries\<close> and \<open>isFastMode\<close>
  set and every other property and element unchanged; when \<open>d\<close> is \<open>null\<close> or a
  primitive the assignments throw and the call rejects with the invalid-JSON error.
\<close>

theorem parsed_object_returned_unvalidated:
  assumes "getAIClient env = Inr ai"
    and "generateContent (build_request userQuery isFast) = Inr response"
    and "response_text response = Some body" and "body \<noteq> []"
    and "parse body = Some d"
  shows "(is_object d \<longrightarrow>
           (\<exists>r. performTransparentSearch env generateContent parse userQuery isFast =
                  (Inr r, [GenerateContent ai (build_request userQuery isFast), JSON_parse body])
              \<and> js_get r (js ''actualQueries'') =
                  (if isFast then js_get d (js ''keywords'')
                   else Some (js_strings (extract_actualQueries response)))
              \<and> js_get r (js ''isFastMode'') = Some (JBool isFast)
              \<and> (\<forall>k. k \<noteq> js ''actualQueries'' \<and> k \<noteq> js ''isFastMode'' \<longrightarrow>
                    js_get r k = js_get d k)
              \<and> js_elements r = js_elements d))
       \<and> (\<not> is_object d \<longrightarrow>
           performTransparentSearch env generateContent parse userQuery isFast =
             (Inl InvalidJSON,
              [GenerateContent ai (build_request userQuery isFast), JSON_parse body]))"
proof (cases "is_object d")
  case True
  then obtain r where an: "annotate d isFast (extract_actualQueries response) = Some r"
    using annotate_total by blast
  have "performTransparentSearch env generateContent parse userQuery isFast =
      (Inr r, [GenerateContent ai (build_request userQuery isFast), JSON_parse body])"
    using performTransparentSearch_parsed
      [where generateContent = generateContent and parse = parse, OF assms(1-4)] assms(5) an
    by simp
  moreover have "js_elements r = js_elements d"
    by (rule annotate_elements [OF an])
  ultimately show ?thesis
    using True annotate_props [OF an] by auto
next
  case False
  then have "annotate d isFast (extract_actualQueries response) = None"
    by (rule annotate_not_object)
  then show ?thesis
    using performTransparentSearch_parsed
      [where generateContent = generateContent and parse = parse, OF assms(1-4)] assms(5) False
    by simp
qed

theorem parsed_object_returned_unvalidated_witness:
  "is_object example_data
   \<and> performTransparentSearch env_with_key (stub_backend example_response)
       (stub_parse example_body example_data) (js ''q'') False =
     (Inr example_full_result,
      [GenerateContent (GoogleGenAI (js ''k'')) (build_request (js ''q'') False),
       JSON_parse example_body])
   \<and> js_get example_full_result (js ''isFastMode'') = Some (JBool False)
   \<and> js_get example_full_result (js ''results'') = js_get example_data (js ''results'')"
proof -
  have obj: "is_object example_data" by (simp add: example_data_def)
  have t: "response_text example_response = Some example_body"
    by (simp add: example_response_def)
  have g: "stub_backend example_response (build_request (js ''q'') False) = Inr example_response"
    by (simp add: stub_backend_def)
  have p: "stub_parse example_body example_data example_body = Some example_data"
    by (simp add: stub_parse_def)
  from parsed_object_returned_unvalidated [where generateContent = "stub_backend example_response"
      and parse = "stub_parse example_body example_data",
      OF getAIClient_env_with_key g t example_body_nonempty p] obj
  obtain r where
    run: "performTransparentSearch env_with_key (stub_backend example_response)
       (stub_parse example_body example_data) (js ''q'') False =
     (Inr r, [GenerateContent (GoogleGenAI (js ''k'')) (build_request (js ''q'') False),
       JSON_parse example_body])"
    and fm: "js_get r (js ''isFastMode'') = Some (JBool False)"
    and other: "\<forall>k. k \<noteq> js ''actualQueries'' \<and> k \<noteq> js ''isFastMode'' \<longrightarrow>
       js_get r k = js_get example_data k"
    by auto
  have r: "r = example_full_result"
    using run by (simp add: example_run)
  from other have "js_get r (js ''results'') = js_get example_data (js ''results'')"
    by simp
  with obj run fm show ?thesis unfolding r by simp
qed


section \<open>Properties of the presentation layer\<close>

lemma trim_eq_Nil: "trim q = [] \<longleftrightarrow> list_all is_ws q"
proof
  assume "trim q = []"
  then have all: "\<forall>c\<in>set (dropWhile is_ws q). is_ws c"
    by (simp add: trim_def)
  have "dropWhile is_ws q = []"
  proof (rule ccontr)
    assume ne: "dropWhile is_ws q \<noteq> []"
    then have "\<not> is_ws (hd (dropWhile is_ws q))" by (rule hd_dropWhile)
    moreover have "hd (dropWhile is_ws q) \<in> set (dropWhile is_ws q)" using ne by simp
    ultimately show False using all by blast
  qed
  then show "list_all is_ws q" by (simp add: list_all_iff)
next
  assume "list_all is_ws q"
  then have "dropWhile is_ws q = []" by (simp add: list_all_iff)
  then show "trim q = []" unfolding trim_def by (simp only: rev.simps dropWhile.simps)
qed

text \<open>
  Claim C6. When the query consists of white space only (or is empty), or while the
  busy flag is set, \<open>handleSubmit\<close> does not invoke \<open>onSearch\<close> and submitting leaves the
  whole page state as it was: no run of \<open>handleSearch\<close> starts and no call is logged.
\<close>

theorem blank_or_busy_submit_is_noop:
  assumes "list_all is_ws (query s) \<or> isLoading s"
  shows "handleSubmit (query s) (isLoading s) = None \<and> step s SubmitForm = s"
  using assms by (auto simp: handleSubmit_def trim_eq_Nil)

theorem blank_or_busy_submit_is_noop_witness:
  "handleSubmit (js ''  '') False = None
   \<and> step (initial\<lparr> query := js ''  '' \<rparr>) SubmitForm = initial\<lparr> query := js ''  '' \<rparr>
   \<and> handleSubmit (js ''q'') True = None
   \<and> step (initial\<lparr> query := js ''q'', isLoading := True \<rparr>) SubmitForm =
       initial\<lparr> query := js ''q'', isLoading := True \<rparr>"
  using blank_or_busy_submit_is_noop [of "initial\<lparr> query := js ''  '' \<rparr>"]
    blank_or_busy_submit_is_noop [of "initial\<lparr> query := js ''q'', isLoading := True \<rparr>"]
  by (simp add: initial_def js_def is_ws_def)

lemma step_while_loading:
  assumes "inflight s = [t]" and "isLoading s" and "data s = None" and "\<not> is_settled e"
  shows "\<exists>t'. inflight (step s e) = [t'] \<and> isLoading (step s e) \<and> data (step s e) = None
     \<and> error (step s e) = error s
     \<and> task_query t' = task_query t \<and> task_isFastMode t' = task_isFastMode t
     \<and> stage_rank (task_stage t') =
         min 2 (stage_rank (task_stage t) + (if e = TimerFired then 1 else 0))
     \<and> calls (step s e) @ pending_call t' = calls s @ pending_call t"
  using assms
  by (cases e; cases "task_stage t")
    (simp_all add: handleSubmit_def handleSearch_resume_def pending_call_def)

lemma run_while_loading:
  assumes "inflight s = [t]" and "isLoading s" and "data s = None"
    and "\<forall>e\<in>set evs. \<not> is_settled e"
  shows "\<exists>t'. inflight (run s evs) = [t'] \<and> isLoading (run s evs) \<and> data (run s evs) = None
     \<and> error (run s evs) = error s
     \<and> task_query t' = task_query t \<and> task_isFastMode t' = task_isFastMode t
     \<and> stage_rank (task_stage t') =
         min 2 (stage_rank (task_stage t) + count_list evs TimerFired)
     \<and> calls (run s evs) @ pending_call t' = calls s @ pending_call t"
  using assms
proof (induction evs arbitrary: s t)
  case Nil
  then show ?case by (simp add: run_def) (cases "task_stage t"; simp)
next
  case (Cons e evs)
  from Cons.prems have ne: "\<not> is_settled e" and rest: "\<forall>e\<in>set evs. \<not> is_settled e"
    by simp_all
  from step_while_loading [OF Cons.prems(1-3) ne] obtain t1 where
    t1: "inflight (step s e) = [t1]" "isLoading (step s e)" "data (step s e) = None"
    and e1: "error (step s e) = error s"
    and q1: "task_query t1 = task_query t" "task_isFastMode t1 = task_isFastMode t"
    and r1: "stage_rank (task_stage t1) =
         min 2 (stage_rank (task_stage t) + (if e = TimerFired then 1 else 0))"
    and c1: "calls (step s e) @ pending_call t1 = calls s @ pending_call t"
    by blast
  from Cons.IH [OF t1 rest] obtain t' where
    t': "inflight (run (step s e) evs) = [t']" "isLoading (run (step s e) evs)"
      "data (run (step s e) evs) = None"
    and e': "error (run (step s e) evs) = error (step s e)"
    and q': "task_query t' = task_query t1" "task_isFastMode t' = task_isFastMode t1"
    and r': "stage_rank (task_stage t') =
         min 2 (stage_rank (task_stage t1) + count_list evs TimerFired)"
    and c': "calls (run (step s e) evs) @ pending_call t' = calls (step s e) @ pending_call t1"
    by blast
  have run: "run s (e # evs) = run (step s e) evs" by (simp add: run_def)
  have "stage_rank (task_stage t') =
      min 2 (stage_rank (task_stage t) + count_list (e # evs) TimerFired)"
    using r1 r' by auto
  with t' e' e1 q' q1 c' c1 show ?case unfolding run by auto
qed

lemma well_formed_initial: "well_formed initial"
  by (simp add: well_formed_def initial_def)

lemma well_formed_step: "well_formed s \<Longrightarrow> well_formed (step s e)"
proof (cases e)
  case TimerFired
  assume "well_formed s"
  then show ?thesis unfolding TimerFired
    by (cases "inflight s"; cases "task_stage (hd (inflight s))")
      (auto simp: well_formed_def handleSearch_resume_def)
next
  case (SearchSettled outcome)
  assume "well_formed s"
  then show ?thesis unfolding SearchSettled
    by (cases "inflight s"; cases outcome)
      (auto simp: well_formed_def handleSearch_settle_def)
qed (auto simp: well_formed_def handleSubmit_def handleSearch_begin_def split: option.splits)

lemma well_formed_run: "well_formed s \<Longrightarrow> well_formed (run s evs)"
  by (induction evs arbitrary: s) (simp_all add: run_def well_formed_step)

lemma reachable_idle:
  assumes "s = run initial history" and "\<not> isLoading s"
  shows "inflight s = []"
  using well_formed_run [OF well_formed_initial, of history] assms
  by (simp add: well_formed_def)

text \<open>An accepted submission, the events up to the call, and the call itself.\<close>

lemma submission_reaches_call:
  assumes "inflight s = []" and "\<not> isLoading s" and "trim (query s) \<noteq> []"
    and "\<forall>e\<in>set evs. \<not> is_settled e" and "2 \<le> count_list evs TimerFired"
  defines "s2 \<equiv> run (step s SubmitForm) evs"
  shows "inflight s2 =
           [\<lparr> task_stage = AwaitingSearch, task_query = query s,
              task_isFastMode = isFastMode s \<rparr>]"
    and "isLoading s2" and "data s2 = None" and "error s2 = None"
    and "calls s2 = calls s @ [(query s, isFastMode s)]"
proof -
  let ?t = "\<lparr> task_stage = FirstDelay, task_query = query s, task_isFastMode = isFastMode s \<rparr>"
  let ?s1 = "step s SubmitForm"
  have s1: "?s1 = handleSearch_begin (query s) s"
    using assms(2,3) by (simp add: handleSubmit_def)
  have a: "inflight ?s1 = [?t]" and b: "isLoading ?s1" and c: "data ?s1 = None"
    and d: "error ?s1 = None" and e: "calls ?s1 = calls s"
    using assms(1) unfolding s1 by (simp_all add: handleSearch_begin_def)
  from run_while_loading [OF a b c assms(4)] obtain t' where
    t': "inflight s2 = [t']" "isLoading s2" "data s2 = None" "error s2 = error ?s1"
      "task_query t' = query s" "task_isFastMode t' = isFastMode s"
    and rank: "stage_rank (task_stage t') = min 2 (count_list evs TimerFired)"
    and cl: "calls s2 @ pending_call t' = calls ?s1 @ pending_call ?t"
    unfolding s2_def by auto
  from rank assms(5) have st: "task_stage t' = AwaitingSearch"
    by (cases "task_stage t'") simp_all
  have "t' = \<lparr> task_stage = AwaitingSearch, task_query = query s,
      task_isFastMode = isFastMode s \<rparr>"
    using st t'(5,6) by (cases t') simp
  with t' show "inflight s2 =
      [\<lparr> task_stage = AwaitingSearch, task_query = query s, task_isFastMode = isFastMode s \<rparr>]"
    by simp
  show "isLoading s2" "data s2 = None" by (fact t')+
  show "error s2 = None" using t'(4) d by simp
  show "calls s2 = calls s @ [(query s, isFastMode s)]"
    using cl st e by (simp add: pending_call_def)
qed

lemma scenario_query_trim: "trim scenario_query \<noteq> []"
  by (simp add: trim_eq_Nil scenario_query_def js_def is_ws_def)

lemma scenario_run: "run initial scenario_events = scenario_ready"
  by (simp add: run_def scenario_events_def initial_def handleSubmit_def scenario_query_trim
      handleSearch_begin_def handleSearch_resume_def scenario_ready_def
      handleSearch_settle_def scenario_response_def)

text \<open>
  Claim C3. From any reachable state that is not loading, an accepted submission clears
  the held response at once; after any events that do not settle the search and include
  the two timers, the call has been made, and when it fails, with whatever error, the
  page holds the generic message, no response and no busy flag: the error banner is
  rendered and the results grid is not.
\<close>

theorem failed_search_shows_only_error:
  fixes err :: search_error
  assumes "s = run initial history" and "\<not> isLoading s" and "trim (query s) \<noteq> []"
    and "\<forall>e\<in>set evs. \<not> is_settled e" and "2 \<le> count_list evs TimerFired"
  defines "s3 \<equiv> step (run (step s SubmitForm) evs) (SearchSettled (Inl err))"
  shows "data (step s SubmitForm) = None
     \<and> calls (run (step s SubmitForm) evs) = calls s @ [(query s, isFastMode s)]
     \<and> error s3 = Some (js ''Failed to perform search. Please try again.'')
     \<and> data s3 = None \<and> \<not> isLoading s3 \<and> inflight s3 = []
     \<and> error_banner (render s3) = Some (js ''Failed to perform search. Please try again.'')
     \<and> results_grid (render s3) = None"
proof -
  have idle: "inflight s = []" using assms(1,2) by (rule reachable_idle)
  have "data (step s SubmitForm) = None"
    using assms(2,3) by (simp add: handleSubmit_def handleSearch_begin_def)
  moreover note submission_reaches_call [OF idle assms(2-5)]
  moreover from this
  have "error s3 = Some (js ''Failed to perform search. Please try again.'')"
    "data s3 = None" "\<not> isLoading s3" "inflight s3 = []"
    unfolding s3_def by (simp_all add: handleSearch_settle_def)
  moreover from this
  have "error_banner (render s3) = Some (js ''Failed to perform search. Please try again.'')"
    "results_grid (render s3) = None"
    by (simp_all add: render_def truthy_def js_def)
  ultimately show ?thesis by simp
qed

theorem failed_search_shows_only_error_witness:
  "data (run initial scenario_events) = Some scenario_response
   \<and> \<not> isLoading (run initial scenario_events)
   \<and> error (step (run (step (run initial scenario_events) SubmitForm)
                [TimerFired, ToggleFastMode, TimerFired]) (SearchSettled (Inl NoResponseFromAI)))
       = Some (js ''Failed to perform search. Please try again.'')
   \<and> data (step (run (step (run initial scenario_events) SubmitForm)
                [TimerFired, ToggleFastMode, TimerFired]) (SearchSettled (Inl NoResponseFromAI)))
       = None
   \<and> results_grid (render (step (run (step (run initial scenario_events) SubmitForm)
                [TimerFired, ToggleFastMode, TimerFired]) (SearchSettled (Inl NoResponseFromAI))))
       = None"
  using failed_search_shows_only_error [where s = "run initial scenario_events" and history = scenario_events
      and evs = "[TimerFired, ToggleFastMode, TimerFired]" and err = NoResponseFromAI]
  by (simp add: scenario_run scenario_ready_def scenario_query_trim)

text \<open>
  Claim C7. Toggling fast mode leaves the held response, the selected filter, the
  rendered results grid and the call log unchanged. A submission calls
  \<open>performTransparentSearch\<close> with the flag as it was when the form was submitted,
  whatever toggles follow before the call: submitted before the toggle it passes the old
  value, submitted after the toggle the new one.
\<close>

theorem fast_mode_toggle_affects_next_submission_only:
  assumes "s = run initial history" and "\<not> isLoading s" and "trim (query s) \<noteq> []"
    and "\<forall>e\<in>set evs. \<not> is_settled e" and "2 \<le> count_list evs TimerFired"
  defines "s' \<equiv> step s ToggleFastMode"
  shows "data s' = data s \<and> activeKeyword s' = activeKeyword s
     \<and> results_grid (render s') = results_grid (render s)
     \<and> calls s' = calls s \<and> inflight s' = inflight s
     \<and> isFastMode s' = (\<not> isFastMode s)
     \<and> calls (run (step s SubmitForm) evs) = calls s @ [(query s, isFastMode s)]
     \<and> calls (run (step s' SubmitForm) evs) = calls s @ [(query s, \<not> isFastMode s)]"
proof -
  have idle: "inflight s = []" using assms(1,2) by (rule reachable_idle)
  have frame: "data s' = data s" "activeKeyword s' = activeKeyword s" "calls s' = calls s"
    "inflight s' = inflight s" "isFastMode s' = (\<not> isFastMode s)" "query s' = query s"
    "isLoading s' = isLoading s"
    by (simp_all add: s'_def)
  have view: "results_grid (render s') = results_grid (render s)"
    by (simp add: s'_def render_def split: option.splits)
  have idle': "inflight s' = []" "\<not> isLoading s'" "trim (query s') \<noteq> []"
    using idle assms(2,3) frame by simp_all
  have "calls (run (step s SubmitForm) evs) = calls s @ [(query s, isFastMode s)]"
    by (rule submission_reaches_call(5) [OF idle assms(2-5)])
  moreover have "calls (run (step s' SubmitForm) evs) = calls s @ [(query s, \<not> isFastMode s)]"
    using submission_reaches_call(5) [OF idle' assms(4,5)] frame by simp
  ultimately show ?thesis using frame view by simp
qed

theorem fast_mode_toggle_affects_next_submission_only_witness:
  "data (step (run initial scenario_events) ToggleFastMode) = Some scenario_response
   \<and> activeKeyword (step (run initial scenario_events) ToggleFastMode) = Some (js ''all'')
   \<and> isFastMode (step (run initial scenario_events) ToggleFastMode)
   \<and> calls (run (step (step (run initial scenario_events) ToggleFastMode) SubmitForm)
        [ToggleFastMode, TimerFired, TimerFired]) =
       [(scenario_query, False), (scenario_query, True)]"
  using fast_mode_toggle_affects_next_submission_only [where s = "run initial scenario_events" and history = scenario_events
      and evs = "[ToggleFastMode, TimerFired, TimerFired]"]
  by (simp add: scenario_run scenario_ready_def scenario_query_trim)




text \<open>
  The claim as written gives the \<open>All Results\<close> chip the count 2. The chip shows
  \<open>data.results.length\<close>, which is 1 in the scenario.
\<close>

theorem example_scenario_all_results_count:
  "all_results_count (render (run initial scenario_events)) = Some 1
   \<and> all_results_count (render (run initial scenario_events)) \<noteq> Some 2"
  by (simp add: scenario_run scenario_ready_def render_def keyword_chips_def
      scenario_response_def)

text \<open>
  Claim C9, amended. In the example scenario the page renders the \<open>All Results\<close> chip
  and two keyword chips; the \<open>All Results\<close> chip shows the number of results, which is
  1; selecting the first keyword chip renders exactly one result card, with no further
  call.
\<close>

theorem example_scenario_rendering:
  "results_grid (render (run initial scenario_events)) =
     Some ([\<lparr> chip_keyword = js ''All Results'', chip_isActive = True, chip_resultCount = 1 \<rparr>,
            \<lparr> chip_keyword = js ''EV range 2025'', chip_isActive = False, chip_resultCount = 1 \<rparr>,
            \<lparr> chip_keyword = js ''EV pricing 2025'', chip_isActive = False, chip_resultCount = 0 \<rparr>],
           ResultCards [scenario_result])
   \<and> results_grid (render (run initial (scenario_events @ [ClickKeyword 0]))) =
     Some ([\<lparr> chip_keyword = js ''All Results'', chip_isActive = False, chip_resultCount = 1 \<rparr>,
            \<lparr> chip_keyword = js ''EV range 2025'', chip_isActive = True, chip_resultCount = 1 \<rparr>,
            \<lparr> chip_keyword = js ''EV pricing 2025'', chip_isActive = False, chip_resultCount = 0 \<rparr>],
           ResultCards [scenario_result])
   \<and> calls (run initial (scenario_events @ [ClickKeyword 0])) = [(scenario_query, False)]"
proof -
  have "run initial (scenario_events @ [ClickKeyword 0]) = step scenario_ready (ClickKeyword 0)"
    using scenario_run by (simp add: run_def)
  then show ?thesis
    by (simp add: scenario_run scenario_ready_def render_def keyword_chips_def
      scenario_response_def filteredResults_def render_results_def truthy_def
      scenario_result_def js_def)
qed

end
